theory Spec2Isabelle
  imports Main "HOL-Library.Word"
begin

section \<open>The o3dimport gem: system component and module classes\<close>

text \<open>
  The repository is the editor side of an O3DE gem: a request interface
  (\<^verbatim>\<open>o3dimportBus.h\<close>), a system component
  (\<^verbatim>\<open>o3dimportEditorSystemComponent.cpp\<close>) and two module classes
  (\<^verbatim>\<open>o3dimportModuleInterface.cpp\<close>, \<^verbatim>\<open>o3dimportEditorModule.cpp\<close>).
  Every function of the repository is embedded below under its own name. What the
  functions call in the host engine (\<^verbatim>\<open>AZ::Interface\<close>, \<^verbatim>\<open>AZ::EBus\<close>,
  \<^verbatim>\<open>AZ::SerializeContext\<close>, \<^verbatim>\<open>AZ_CRC_CE\<close>) is not part of the repository: the
  event bus and the CRC are parameters of the model, the other two are modelled from the
  specification and marked as such.
\<close>

subsection \<open>Type identifiers (\<^verbatim>\<open>o3dimportTypeIds.h\<close>)\<close>

type_synonym TypeId = string

definition o3dimportEditorSystemComponentTypeId :: TypeId where
  "o3dimportEditorSystemComponentTypeId = ''{D8D8C6FA-58F3-4BBF-8071-9876C82EB51F}''"

definition o3dimportModuleInterfaceTypeId :: TypeId where
  "o3dimportModuleInterfaceTypeId = ''{BF1510BB-4A13-4CFC-83D0-F1083EC43DA5}''"

definition o3dimportEditorModuleTypeId :: TypeId where
  "o3dimportEditorModuleTypeId = ''{B06B5CF3-47CA-4DB1-9F2C-7EE480A3949C}''"

definition o3dimportRequestsTypeId :: TypeId where
  "o3dimportRequestsTypeId = ''{D4B9BE7C-F89D-4D2A-AFF6-1EAB68767AA8}''"

subsection \<open>Process-wide state\<close>

text \<open>
  A component instance is identified by its address (\<^verbatim>\<open>this\<close>). The process holds
  the static pointer of \<^verbatim>\<open>o3dimportInterface = AZ::Interface<o3dimportRequests>\<close> and the
  context of \<^verbatim>\<open>o3dimportRequestBus\<close>. The bus context is opaque: its type is the
  parameter \<open>'b\<close>.
\<close>

type_synonym inst = nat

record 'b world =
  s_instance :: "inst option"
  bus :: 'b

text \<open>
  Modelled from the spec: \<^verbatim>\<open>AZ::Interface<T>\<close> is host-engine code, absent from the
  repository. The specification describes it as ``a process-wide singleton pointer to the
  active request-handler instance'', which is set by registration and cleared by
  unregistration; \<^verbatim>\<open>Get\<close> reads the pointer (\<open>None\<close> is \<^verbatim>\<open>nullptr\<close>).
\<close>

definition Interface_Get :: "('b, 'z) world_scheme \<Rightarrow> inst option" where
  "Interface_Get w = s_instance w"

definition Interface_Register :: "inst \<Rightarrow> ('b, 'z) world_scheme \<Rightarrow> ('b, 'z) world_scheme" where
  "Interface_Register p w = w\<lparr>s_instance := Some p\<rparr>"

definition Interface_Unregister :: "inst \<Rightarrow> ('b, 'z) world_scheme \<Rightarrow> ('b, 'z) world_scheme" where
  "Interface_Unregister p w = w\<lparr>s_instance := None\<rparr>"

subsection \<open>The system component (\<^verbatim>\<open>o3dimportEditorSystemComponent.cpp\<close>)\<close>

text \<open>
  The constructor:
  \<^verbatim>\<open>if (o3dimportInterface::Get() == nullptr) { o3dimportInterface::Register(this); }\<close>
  The definitions \<open>ctor\<close> and \<open>dtor\<close> are the bodies the repository writes. The
  constructors and destructors of the base classes (\<^verbatim>\<open>AZ::Component\<close> and the bus
  handler) belong to the host and are not part of them.
\<close>

definition ctor :: "inst \<Rightarrow> ('b, 'z) world_scheme \<Rightarrow> ('b, 'z) world_scheme" where
  "ctor this w = (if Interface_Get w = None then Interface_Register this w else w)"

text \<open>
  The destructor:
  \<^verbatim>\<open>if (o3dimportInterface::Get() == this) { o3dimportInterface::Unregister(this); }\<close>
\<close>

definition dtor :: "inst \<Rightarrow> ('b, 'z) world_scheme \<Rightarrow> ('b, 'z) world_scheme" where
  "dtor this w = (if Interface_Get w = Some this then Interface_Unregister this w else w)"

text \<open>
  \<^verbatim>\<open>Activate\<close> is the single call \<^verbatim>\<open>o3dimportRequestBus::Handler::BusConnect()\<close> and
  \<^verbatim>\<open>Deactivate\<close> the single call \<^verbatim>\<open>BusDisconnect()\<close>. Both are methods of the host's
  bus handler: they are the parameters \<open>BusConnect\<close> and \<open>BusDisconnect\<close>, functions of
  the handler and the bus context.
\<close>

definition Activate ::
  "(inst \<Rightarrow> 'b \<Rightarrow> 'b) \<Rightarrow> inst \<Rightarrow> ('b, 'z) world_scheme \<Rightarrow> ('b, 'z) world_scheme" where
  "Activate BusConnect this w = w\<lparr>bus := BusConnect this (bus w)\<rparr>"

definition Deactivate ::
  "(inst \<Rightarrow> 'b \<Rightarrow> 'b) \<Rightarrow> inst \<Rightarrow> ('b, 'z) world_scheme \<Rightarrow> ('b, 'z) world_scheme" where
  "Deactivate BusDisconnect this w = w\<lparr>bus := BusDisconnect this (bus w)\<rparr>"

text \<open>
  The four service declarations. \<^verbatim>\<open>DependencyArrayType\<close> is a vector of 32-bit CRC
  tags; \<^verbatim>\<open>push_back\<close> appends. \<^verbatim>\<open>AZ_CRC_CE\<close> is the host's compile-time CRC, the
  parameter \<open>crc\<close>.
\<close>

type_synonym DependencyArrayType = "32 word list"

definition GetProvidedServices ::
  "(string \<Rightarrow> 32 word) \<Rightarrow> DependencyArrayType \<Rightarrow> DependencyArrayType" where
  "GetProvidedServices crc provided = provided @ [crc ''o3dimportEditorService'']"

definition GetIncompatibleServices ::
  "(string \<Rightarrow> 32 word) \<Rightarrow> DependencyArrayType \<Rightarrow> DependencyArrayType" where
  "GetIncompatibleServices crc incompatible = incompatible @ [crc ''o3dimportEditorService'']"

definition GetRequiredServices :: "DependencyArrayType \<Rightarrow> DependencyArrayType" where
  "GetRequiredServices required = required"

definition GetDependentServices :: "DependencyArrayType \<Rightarrow> DependencyArrayType" where
  "GetDependentServices dependent = dependent"

subsection \<open>Reflection\<close>

text \<open>
  A reflect context is a \<^verbatim>\<open>SerializeContext\<close>, which holds the declared classes, or a
  context of another kind (behaviour, edit, ...), whose content is opaque. A class
  declaration has a name, a type id, its base classes and the fields registered for it.
  \<^verbatim>\<open>Reflect\<close> takes a pointer, which may be null.
\<close>

record ClassData =
  cd_name :: string
  cd_typeId :: TypeId
  cd_bases :: "string list"
  cd_fields :: "string list"

datatype 'a ReflectContext = SerializeContext "ClassData list" | OtherContext 'a

text \<open>\<^verbatim>\<open>azrtti_cast<AZ::SerializeContext*>(context)\<close>: null unless the context is one.\<close>

fun azrtti_cast_SerializeContext :: "'a ReflectContext option \<Rightarrow> ClassData list option" where
  "azrtti_cast_SerializeContext (Some (SerializeContext classes)) = Some classes"
| "azrtti_cast_SerializeContext (Some (OtherContext x)) = None"
| "azrtti_cast_SerializeContext None = None"

text \<open>
  Modelled from the spec: \<^verbatim>\<open>SerializeContext::Class<T, Base>()\<close> is host-engine code,
  absent from the repository. The specification says it ``declares an empty serialization
  class with no fields'': the class is added to the context with its name, type id and
  base, and fields would come only from later \<^verbatim>\<open>Field\<close> calls on the builder.
\<close>

definition SerializeContext_Class ::
  "string \<Rightarrow> TypeId \<Rightarrow> string list \<Rightarrow> ClassData list \<Rightarrow> ClassData list" where
  "SerializeContext_Class name tid bases classes =
     classes @ [\<lparr>cd_name = name, cd_typeId = tid, cd_bases = bases, cd_fields = []\<rparr>]"

text \<open>
  \<^verbatim>\<open>Reflect\<close>: the class is declared through the builder and no \<^verbatim>\<open>Field\<close> call
  follows. The name and type id are those of \<^verbatim>\<open>AZ_COMPONENT_IMPL\<close>.
\<close>

definition Reflect :: "'a ReflectContext option \<Rightarrow> 'a ReflectContext option" where
  "Reflect context =
     (case azrtti_cast_SerializeContext context of
        Some classes \<Rightarrow>
          Some (SerializeContext
            (SerializeContext_Class ''o3dimportEditorSystemComponent''
               o3dimportEditorSystemComponentTypeId [''AZ::Component''] classes))
      | None \<Rightarrow> context)"

text \<open>The fields registered in a context, over all its classes.\<close>

fun registered_fields :: "'a ReflectContext option \<Rightarrow> string list" where
  "registered_fields (Some (SerializeContext classes)) = concat (map cd_fields classes)"
| "registered_fields (Some (OtherContext x)) = []"
| "registered_fields None = []"

subsection \<open>The module classes\<close>

text \<open>
  A component descriptor carries the name and the type id given to
  \<^verbatim>\<open>AZ_COMPONENT_IMPL\<close>; \<^verbatim>\<open>azrtti_typeid\<close> of the component is that type id. A module
  owns the list \<^verbatim>\<open>m_descriptors\<close>.
\<close>

record ComponentDescriptor =
  desc_name :: string
  desc_typeId :: TypeId

definition CreateDescriptor :: ComponentDescriptor where
  "CreateDescriptor =
     \<lparr>desc_name = ''o3dimportEditorSystemComponent'',
      desc_typeId = o3dimportEditorSystemComponentTypeId\<rparr>"

definition azrtti_typeid_o3dimportEditorSystemComponent :: TypeId where
  "azrtti_typeid_o3dimportEditorSystemComponent = o3dimportEditorSystemComponentTypeId"

type_synonym ComponentTypeList = "TypeId list"

record Module =
  m_descriptors :: "ComponentDescriptor list"

text \<open>\<^verbatim>\<open>o3dimportModuleInterface\<close>: an empty constructor body and an empty list.\<close>

definition o3dimportModuleInterface_ctor :: "Module \<Rightarrow> Module" where
  "o3dimportModuleInterface_ctor m = m"

definition o3dimportModuleInterface_GetRequiredSystemComponents :: "Module \<Rightarrow> ComponentTypeList" where
  "o3dimportModuleInterface_GetRequiredSystemComponents m = []"

text \<open>
  \<^verbatim>\<open>o3dimportEditorModule\<close>. \<^verbatim>\<open>Inito3dimportResources\<close> registers the Qt resource
  \<^verbatim>\<open>o3dimport\<close> with the process; the constructor calls it after the base constructor,
  then inserts the descriptor at \<^verbatim>\<open>m_descriptors.end()\<close>.
\<close>

definition Inito3dimportResources :: "string set \<Rightarrow> string set" where
  "Inito3dimportResources resources = insert ''o3dimport'' resources"

definition o3dimportEditorModule_ctor :: "string set \<Rightarrow> Module \<Rightarrow> string set \<times> Module" where
  "o3dimportEditorModule_ctor resources m =
     (let m0 = o3dimportModuleInterface_ctor m
      in (Inito3dimportResources resources,
          m0\<lparr>m_descriptors := m_descriptors m0 @ [CreateDescriptor]\<rparr>))"

definition o3dimportEditorModule_GetRequiredSystemComponents :: "Module \<Rightarrow> ComponentTypeList" where
  "o3dimportEditorModule_GetRequiredSystemComponents m =
     [azrtti_typeid_o3dimportEditorSystemComponent]"

text \<open>The virtual call, dispatched on the dynamic class of the module.\<close>

datatype ModuleClass = ModuleInterfaceClass | EditorModuleClass

fun GetRequiredSystemComponents :: "ModuleClass \<Rightarrow> Module \<Rightarrow> ComponentTypeList" where
  "GetRequiredSystemComponents ModuleInterfaceClass m =
     o3dimportModuleInterface_GetRequiredSystemComponents m"
| "GetRequiredSystemComponents EditorModuleClass m =
     o3dimportEditorModule_GetRequiredSystemComponents m"

subsection \<open>Sequences of lifecycle operations\<close>

text \<open>
  The host constructs, activates, deactivates and destroys component instances. A system
  state is the set of instances alive together with the process-wide state. An operation
  on an object that is not alive, and a construction at an address in use, are not
  executions of the program: \<open>exec\<close> gives \<open>None\<close> for them.
\<close>

datatype event = Construct inst | Destroy inst | DoActivate inst | DoDeactivate inst

record 'b sys =
  live :: "inst set"
  glob :: "'b world"

definition init :: "'b \<Rightarrow> 'b sys" where
  "init b = \<lparr>live = {}, glob = \<lparr>s_instance = None, bus = b\<rparr>\<rparr>"

fun exec :: "(inst \<Rightarrow> 'b \<Rightarrow> 'b) \<Rightarrow> (inst \<Rightarrow> 'b \<Rightarrow> 'b) \<Rightarrow> event \<Rightarrow> 'b sys \<Rightarrow> 'b sys option" where
  "exec c d (Construct p) s =
     (if p \<in> live s then None
      else Some \<lparr>live = insert p (live s), glob = ctor p (glob s)\<rparr>)"
| "exec c d (Destroy p) s =
     (if p \<in> live s then Some \<lparr>live = live s - {p}, glob = dtor p (glob s)\<rparr> else None)"
| "exec c d (DoActivate p) s =
     (if p \<in> live s then Some (s\<lparr>glob := Activate c p (glob s)\<rparr>) else None)"
| "exec c d (DoDeactivate p) s =
     (if p \<in> live s then Some (s\<lparr>glob := Deactivate d p (glob s)\<rparr>) else None)"

fun run :: "(inst \<Rightarrow> 'b \<Rightarrow> 'b) \<Rightarrow> (inst \<Rightarrow> 'b \<Rightarrow> 'b) \<Rightarrow> event list \<Rightarrow> 'b sys \<Rightarrow> 'b sys option" where
  "run c d [] s = Some s"
| "run c d (e # es) s = (case exec c d e s of None \<Rightarrow> None | Some s' \<Rightarrow> run c d es s')"

text \<open>The instances registered in the singleton, and the invariant of the pointer.\<close>

definition registered :: "('b, 'z) world_scheme \<Rightarrow> inst set" where
  "registered w = set_option (Interface_Get w)"

definition registered_alive :: "'b sys \<Rightarrow> bool" where
  "registered_alive s = (case Interface_Get (glob s) of None \<Rightarrow> True | Some p \<Rightarrow> p \<in> live s)"

text \<open>
  A bus for concrete runs: the set of connected handlers. It instantiates the parameters
  where a run is evaluated; no general statement depends on it.
\<close>

definition SetBusConnect :: "inst \<Rightarrow> inst set \<Rightarrow> inst set" where
  "SetBusConnect p b = insert p b"

definition SetBusDisconnect :: "inst \<Rightarrow> inst set \<Rightarrow> inst set" where
  "SetBusDisconnect p b = b - {p}"

definition w0 :: "inst set world" where
  "w0 = \<lparr>s_instance = None, bus = {}\<rparr>"

section \<open>Properties\<close>

subsection \<open>The singleton pointer under each operation\<close>

lemma Get_ctor:
  "Interface_Get (ctor p w) = (if Interface_Get w = None then Some p else Interface_Get w)"
  by (simp add: ctor_def Interface_Get_def Interface_Register_def)

lemma Get_dtor:
  "Interface_Get (dtor p w) = (if Interface_Get w = Some p then None else Interface_Get w)"
  by (simp add: dtor_def Interface_Get_def Interface_Unregister_def)

lemma Get_Activate: "Interface_Get (Activate c p w) = Interface_Get w"
  by (simp add: Activate_def Interface_Get_def)

lemma Get_Deactivate: "Interface_Get (Deactivate d p w) = Interface_Get w"
  by (simp add: Deactivate_def Interface_Get_def)


lemma ctor_registered: "Interface_Get w \<noteq> None \<Longrightarrow> ctor p w = w"
  by (auto simp add: ctor_def)

lemma dtor_not_registered: "Interface_Get w \<noteq> Some p \<Longrightarrow> dtor p w = w"
  by (simp add: dtor_def)

lemma Get_w0: "Interface_Get w0 = None"
  by (simp add: w0_def Interface_Get_def)

lemma Get_ctor_w0: "Interface_Get (ctor p w0) = Some p"
  by (simp add: Get_ctor Get_w0)

text \<open>
  Claim C1, as the specification states it: \<^verbatim>\<open>Activate\<close> sets the singleton pointer to
  the instance and \<^verbatim>\<open>Deactivate\<close> clears it. The code does neither. After two
  constructions, activating the second instance leaves the pointer at the first; after
  construction and activation, deactivating the registered instance leaves the pointer
  at it.
\<close>

theorem Activate_Deactivate_singleton_counterexample:
  "Interface_Get (Activate SetBusConnect 1 (ctor 1 (ctor 0 w0))) \<noteq> Some 1
   \<and> Interface_Get (Activate SetBusConnect 1 (ctor 1 (ctor 0 w0))) = Some 0
   \<and> Interface_Get (Deactivate SetBusDisconnect 0 (Activate SetBusConnect 0 (ctor 0 w0))) \<noteq> None
   \<and> Interface_Get (Deactivate SetBusDisconnect 0 (Activate SetBusConnect 0 (ctor 0 w0))) = Some 0"
  by (simp add: Get_Activate Get_Deactivate Get_ctor Get_w0)

text \<open>
  Claim C1, amended: the singleton pointer is set by the constructor, when no instance
  is registered, and cleared by the destructor of the registered instance;
  \<^verbatim>\<open>Activate\<close> and \<^verbatim>\<open>Deactivate\<close> leave the pointer as it is, whatever the bus does.
\<close>

theorem singleton_set_by_ctor_cleared_by_dtor:
  "(Interface_Get w = None \<longrightarrow> Interface_Get (ctor p w) = Some p)
   \<and> (Interface_Get w = Some p \<longrightarrow> Interface_Get (dtor p w) = None)
   \<and> Interface_Get (Activate c p w) = Interface_Get w
   \<and> Interface_Get (Deactivate d p w) = Interface_Get w"
  by (simp add: Get_ctor Get_dtor Get_Activate Get_Deactivate)

theorem singleton_set_by_ctor_cleared_by_dtor_witness:
  "Interface_Get w0 = None
   \<and> Interface_Get (ctor 0 w0) = Some 0
   \<and> Interface_Get (Activate SetBusConnect 0 (ctor 0 w0)) = Some 0
   \<and> Interface_Get (Deactivate SetBusDisconnect 0 (ctor 0 w0)) = Some 0
   \<and> Interface_Get (dtor 0 (ctor 0 w0)) = None"
proof -
  have h0: "Interface_Get w0 = None"
    by (rule Get_w0)
  have a: "Interface_Get (ctor 0 w0) = Some 0"
    using singleton_set_by_ctor_cleared_by_dtor [where w = w0 and p = 0] h0 by blast
  have b: "Interface_Get (dtor 0 (ctor 0 w0)) = None"
    using singleton_set_by_ctor_cleared_by_dtor [where w = "ctor 0 w0" and p = 0] a by blast
  have c: "Interface_Get (Activate SetBusConnect 0 (ctor 0 w0)) = Some 0"
    using singleton_set_by_ctor_cleared_by_dtor
      [where w = "ctor 0 w0" and p = 0 and c = SetBusConnect] a by simp
  have d: "Interface_Get (Deactivate SetBusDisconnect 0 (ctor 0 w0)) = Some 0"
    using singleton_set_by_ctor_cleared_by_dtor
      [where w = "ctor 0 w0" and p = 0 and d = SetBusDisconnect] a by simp
  show ?thesis
    using h0 a b c d by simp
qed

text \<open>
  Claim C9: the destructor clears the singleton pointer only when the instance destroyed
  is the registered one. For every other instance the destructor changes nothing, so the
  pointer stays; and whenever the pointer has changed, the instance was the registered
  one and the pointer is now null.
\<close>

theorem dtor_clears_only_registered:
  "(Interface_Get w \<noteq> Some p \<longrightarrow> dtor p w = w \<and> Interface_Get (dtor p w) = Interface_Get w)
   \<and> (Interface_Get (dtor p w) \<noteq> Interface_Get w \<longrightarrow>
        Interface_Get w = Some p \<and> Interface_Get (dtor p w) = None)"
proof (cases "Interface_Get w = Some p")
  case True
  then show ?thesis by (simp add: Get_dtor)
next
  case False
  then show ?thesis by (simp add: dtor_not_registered)
qed

theorem dtor_clears_only_registered_witness:
  "Interface_Get (ctor 0 w0) \<noteq> Some 1
   \<and> dtor 1 (ctor 0 w0) = ctor 0 w0
   \<and> Interface_Get (dtor 1 (ctor 0 w0)) = Some 0
   \<and> Interface_Get (dtor 0 (ctor 0 w0)) \<noteq> Interface_Get (ctor 0 w0)
   \<and> Interface_Get (dtor 0 (ctor 0 w0)) = None"
proof -
  have g: "Interface_Get (ctor 0 w0) = Some 0"
    by (rule Get_ctor_w0)
  have h1: "Interface_Get (ctor 0 w0) \<noteq> Some 1"
    by (simp add: g)
  have a: "dtor 1 (ctor 0 w0) = ctor 0 w0"
    using dtor_clears_only_registered [where w = "ctor 0 w0" and p = 1] h1 by blast
  have h2: "Interface_Get (dtor 0 (ctor 0 w0)) \<noteq> Interface_Get (ctor 0 w0)"
    by (simp add: Get_dtor g)
  have b: "Interface_Get (dtor 0 (ctor 0 w0)) = None"
    using dtor_clears_only_registered [where w = "ctor 0 w0" and p = 0] h2 by blast
  show ?thesis
    using g h1 a h2 b by simp
qed


subsection \<open>Sequences of operations\<close>

lemma init_registered_alive: "registered_alive (init b)"
  by (simp add: registered_alive_def init_def Interface_Get_def)

lemma exec_registered_alive:
  assumes "exec c d e s = Some s'" and "registered_alive s"
  shows "registered_alive s'"
proof (cases e)
  case (Construct p)
  with assms show ?thesis
    by (auto simp add: registered_alive_def Get_ctor split: if_splits option.splits)
next
  case (Destroy p)
  with assms show ?thesis
    by (auto simp add: registered_alive_def Get_dtor split: if_splits option.splits)
next
  case (DoActivate p)
  with assms show ?thesis
    by (auto simp add: registered_alive_def Get_Activate split: if_splits option.splits)
next
  case (DoDeactivate p)
  with assms show ?thesis
    by (auto simp add: registered_alive_def Get_Deactivate split: if_splits option.splits)
qed

lemma run_registered_alive:
  "run c d es s = Some s' \<Longrightarrow> registered_alive s \<Longrightarrow> registered_alive s'"
proof (induction es arbitrary: s)
  case Nil
  then show ?case by simp
next
  case (Cons e es)
  from Cons.prems(1) obtain s1 where e1: "exec c d e s = Some s1" and r1: "run c d es s1 = Some s'"
    by (auto split: option.splits)
  from exec_registered_alive [OF e1 Cons.prems(2)] have "registered_alive s1" .
  with Cons.IH [OF r1] show ?case by simp
qed

lemma card_registered: "card (registered w) \<le> 1"
  by (cases "Interface_Get w") (simp_all add: registered_def)

lemma registered_alive_subset: "registered_alive s \<Longrightarrow> registered (glob s) \<subseteq> live s"
  by (cases "Interface_Get (glob s)") (simp_all add: registered_alive_def registered_def)

text \<open>
  Claim C2: in every state reached from the initial one by constructions, destructions,
  activations and deactivations, at most one instance is registered in the singleton, it
  is an instance that is alive, and the construction of a further instance while one is
  registered succeeds, builds another instance and leaves the singleton at the first.
\<close>

theorem at_most_one_registered:
  assumes "run c d es (init b) = Some s"
  shows "card (registered (glob s)) \<le> 1
    \<and> registered (glob s) \<subseteq> live s
    \<and> (\<forall>p q. Interface_Get (glob s) = Some p \<longrightarrow> q \<notin> live s \<longrightarrow>
          (\<exists>s'. exec c d (Construct q) s = Some s' \<and> Interface_Get (glob s') = Some p \<and> p \<noteq> q))"
proof -
  have alive: "registered_alive s"
    using run_registered_alive [OF assms init_registered_alive] .
  have second: "\<exists>s'. exec c d (Construct q) s = Some s' \<and> Interface_Get (glob s') = Some p \<and> p \<noteq> q"
    if g: "Interface_Get (glob s) = Some p" and q: "q \<notin> live s" for p q
  proof -
    from alive g have "p \<in> live s"
      by (simp add: registered_alive_def)
    with q have "p \<noteq> q" by blast
    moreover from g have "Interface_Get (ctor q (glob s)) = Some p"
      by (simp add: Get_ctor)
    ultimately show ?thesis
      using q by simp
  qed
  show ?thesis
    using card_registered registered_alive_subset [OF alive] second by blast
qed

theorem at_most_one_registered_witness:
  "run SetBusConnect SetBusDisconnect [Construct 0, DoActivate 0] (init {})
     = Some \<lparr>live = {0}, glob = \<lparr>s_instance = Some 0, bus = {0}\<rparr>\<rparr>
   \<and> card (registered \<lparr>s_instance = Some 0, bus = {0::nat}\<rparr>) \<le> 1
   \<and> registered \<lparr>s_instance = Some 0, bus = {0::nat}\<rparr> \<subseteq> {0}
   \<and> (\<exists>s'. exec SetBusConnect SetBusDisconnect (Construct 1)
               \<lparr>live = {0}, glob = \<lparr>s_instance = Some 0, bus = {0}\<rparr>\<rparr> = Some s'
             \<and> Interface_Get (glob s') = Some 0)"
proof -
  let ?s = "\<lparr>live = {0::nat}, glob = \<lparr>s_instance = Some (0::nat), bus = {0::nat}\<rparr>\<rparr>"
  have r: "run SetBusConnect SetBusDisconnect [Construct 0, DoActivate 0] (init {}) = Some ?s"
    by (simp add: init_def ctor_def Interface_Get_def Interface_Register_def Activate_def
        SetBusConnect_def)
  have g: "Interface_Get (glob ?s) = Some 0"
    by (simp add: Interface_Get_def)
  have q: "(1::nat) \<notin> live ?s"
    by simp
  from at_most_one_registered [OF r] g q r show ?thesis
    by (auto simp del: exec.simps)
qed

subsection \<open>Conditional and unconditional operations\<close>

lemma Reflect_not_serialize: "azrtti_cast_SerializeContext ctx = None \<Longrightarrow> Reflect ctx = ctx"
  by (simp add: Reflect_def)

lemma Reflect_serialize:
  "azrtti_cast_SerializeContext ctx = Some cs \<Longrightarrow>
   Reflect ctx = Some (SerializeContext (SerializeContext_Class ''o3dimportEditorSystemComponent''
     o3dimportEditorSystemComponentTypeId [''AZ::Component''] cs))"
  by (simp add: Reflect_def)

lemma ctor_unregistered: "Interface_Get w = None \<Longrightarrow> ctor p w = Interface_Register p w"
  by (simp add: ctor_def)

lemma dtor_registered: "Interface_Get w = Some p \<Longrightarrow> dtor p w = Interface_Unregister p w"
  by (simp add: dtor_def)

text \<open>
  Claim C3, as the specification states it: no operation branches on its input or on the
  prior state. The constructor, the destructor and \<^verbatim>\<open>Reflect\<close> do. The constructor
  registers instance 1 in the initial state and does not once instance 0 is registered;
  the destructor unregisters the registered instance 0 and not instance 1; \<^verbatim>\<open>Reflect\<close>
  changes a serialize context and leaves a context of another kind as it is.
\<close>

theorem operations_unconditional_counterexample:
  "ctor 1 w0 = Interface_Register 1 w0
   \<and> ctor 1 (ctor 0 w0) \<noteq> Interface_Register 1 (ctor 0 w0)
   \<and> dtor 0 (ctor 0 w0) = Interface_Unregister 0 (ctor 0 w0)
   \<and> dtor 1 (ctor 0 w0) \<noteq> Interface_Unregister 1 (ctor 0 w0)
   \<and> Reflect (Some (SerializeContext [])) \<noteq> Some (SerializeContext [] :: unit ReflectContext)
   \<and> Reflect (Some (OtherContext ())) = Some (OtherContext ())"
proof -
  have a: "ctor 1 w0 = Interface_Register 1 w0"
    by (simp add: ctor_unregistered Get_w0)
  have b: "ctor 1 (ctor 0 w0) \<noteq> Interface_Register 1 (ctor 0 w0)"
    by (simp add: ctor_def Interface_Get_def Interface_Register_def w0_def)
  have c: "dtor 0 (ctor 0 w0) = Interface_Unregister 0 (ctor 0 w0)"
    by (simp add: dtor_registered Get_ctor_w0)
  have d: "dtor 1 (ctor 0 w0) \<noteq> Interface_Unregister 1 (ctor 0 w0)"
    by (simp add: dtor_def ctor_def Interface_Get_def Interface_Register_def
        Interface_Unregister_def w0_def)
  have e: "Reflect (Some (SerializeContext [])) \<noteq> Some (SerializeContext [] :: unit ReflectContext)"
    by (simp add: Reflect_def SerializeContext_Class_def)
  have f: "Reflect (Some (OtherContext ())) = Some (OtherContext ())"
    by (simp add: Reflect_def)
  show ?thesis
    using a b c d e f by simp
qed


text \<open>
  Claim C3, amended. No operation has an error outcome: each one, applied to an instance
  that is alive (the constructor: at a free address), yields a next state.
  \<^verbatim>\<open>Activate\<close>, \<^verbatim>\<open>Deactivate\<close>, the four service declarations and the module
  constructor do the same thing in every state and for every argument. The constructor,
  the destructor and \<^verbatim>\<open>Reflect\<close> test a condition: the constructor registers only when
  no instance is registered, the destructor unregisters only when the instance is the
  registered one, \<^verbatim>\<open>Reflect\<close> declares the class only when the context is a serialize
  context; otherwise each leaves its state as it is.
\<close>

theorem operations_total_and_guarded:
  "(Interface_Get w = None \<longrightarrow> ctor p w = Interface_Register p w)
   \<and> (Interface_Get w \<noteq> None \<longrightarrow> ctor p w = w)
   \<and> (Interface_Get w = Some p \<longrightarrow> dtor p w = Interface_Unregister p w)
   \<and> (Interface_Get w \<noteq> Some p \<longrightarrow> dtor p w = w)
   \<and> (\<forall>cs. azrtti_cast_SerializeContext ctx = Some cs \<longrightarrow>
         Reflect ctx = Some (SerializeContext
           (SerializeContext_Class ''o3dimportEditorSystemComponent''
              o3dimportEditorSystemComponentTypeId [''AZ::Component''] cs)))
   \<and> (azrtti_cast_SerializeContext ctx = None \<longrightarrow> Reflect ctx = ctx)
   \<and> Activate c p w = w\<lparr>bus := c p (bus w)\<rparr>
   \<and> Deactivate d p w = w\<lparr>bus := d p (bus w)\<rparr>
   \<and> GetProvidedServices crc xs = xs @ [crc ''o3dimportEditorService'']
   \<and> GetIncompatibleServices crc xs = xs @ [crc ''o3dimportEditorService'']
   \<and> GetRequiredServices xs = xs
   \<and> GetDependentServices xs = xs
   \<and> o3dimportEditorModule_ctor rs m =
       (insert ''o3dimport'' rs, m\<lparr>m_descriptors := m_descriptors m @ [CreateDescriptor]\<rparr>)
   \<and> (p \<notin> live s \<longrightarrow> exec c d (Construct p) s \<noteq> None)
   \<and> (p \<in> live s \<longrightarrow> exec c d (Destroy p) s \<noteq> None \<and> exec c d (DoActivate p) s \<noteq> None
         \<and> exec c d (DoDeactivate p) s \<noteq> None)"
proof -
  have guarded:
    "(Interface_Get w = None \<longrightarrow> ctor p w = Interface_Register p w)
     \<and> (Interface_Get w \<noteq> None \<longrightarrow> ctor p w = w)
     \<and> (Interface_Get w = Some p \<longrightarrow> dtor p w = Interface_Unregister p w)
     \<and> (Interface_Get w \<noteq> Some p \<longrightarrow> dtor p w = w)"
    using ctor_unregistered ctor_registered dtor_registered dtor_not_registered by blast
  have reflect:
    "(\<forall>cs. azrtti_cast_SerializeContext ctx = Some cs \<longrightarrow>
         Reflect ctx = Some (SerializeContext
           (SerializeContext_Class ''o3dimportEditorSystemComponent''
              o3dimportEditorSystemComponentTypeId [''AZ::Component''] cs)))
     \<and> (azrtti_cast_SerializeContext ctx = None \<longrightarrow> Reflect ctx = ctx)"
    using Reflect_serialize Reflect_not_serialize by blast
  have hooks: "Activate c p w = w\<lparr>bus := c p (bus w)\<rparr> \<and> Deactivate d p w = w\<lparr>bus := d p (bus w)\<rparr>"
    by (simp add: Activate_def Deactivate_def)
  have services:
    "GetProvidedServices crc xs = xs @ [crc ''o3dimportEditorService'']
     \<and> GetIncompatibleServices crc xs = xs @ [crc ''o3dimportEditorService'']
     \<and> GetRequiredServices xs = xs \<and> GetDependentServices xs = xs"
    by (simp add: GetProvidedServices_def GetIncompatibleServices_def GetRequiredServices_def
        GetDependentServices_def)
  have module: "o3dimportEditorModule_ctor rs m =
       (insert ''o3dimport'' rs, m\<lparr>m_descriptors := m_descriptors m @ [CreateDescriptor]\<rparr>)"
    by (simp add: o3dimportEditorModule_ctor_def o3dimportModuleInterface_ctor_def
        Inito3dimportResources_def)
  have total:
    "(p \<notin> live s \<longrightarrow> exec c d (Construct p) s \<noteq> None)
     \<and> (p \<in> live s \<longrightarrow> exec c d (Destroy p) s \<noteq> None \<and> exec c d (DoActivate p) s \<noteq> None
           \<and> exec c d (DoDeactivate p) s \<noteq> None)"
    by simp
  from guarded reflect hooks services module total show ?thesis
    by blast
qed


theorem operations_total_and_guarded_witness:
  "ctor 0 w0 = Interface_Register 0 w0
   \<and> ctor 1 (ctor 0 w0) = ctor 0 w0
   \<and> dtor 0 (ctor 0 w0) = Interface_Unregister 0 (ctor 0 w0)
   \<and> dtor 1 (ctor 0 w0) = ctor 0 w0
   \<and> Reflect (Some (SerializeContext [])) =
       Some (SerializeContext (SerializeContext_Class ''o3dimportEditorSystemComponent''
         o3dimportEditorSystemComponentTypeId [''AZ::Component''] []) :: unit ReflectContext)
   \<and> Reflect (Some (OtherContext ())) = Some (OtherContext ())
   \<and> exec SetBusConnect SetBusDisconnect (Construct 0) (init {}) \<noteq> None
   \<and> exec SetBusConnect SetBusDisconnect (Destroy 0) \<lparr>live = {0}, glob = ctor 0 w0\<rparr> \<noteq> None"
proof -
  have g0: "Interface_Get w0 = None"
    by (rule Get_w0)
  have g1: "Interface_Get (ctor 0 w0) = Some 0"
    by (rule Get_ctor_w0)
  have g2: "Interface_Get (ctor 0 w0) \<noteq> None" "Interface_Get (ctor 0 w0) \<noteq> Some 1"
    by (simp_all add: g1)
  have a: "ctor 0 w0 = Interface_Register 0 w0"
    using operations_total_and_guarded [where w = w0 and p = 0] g0 by blast
  have b: "ctor 1 (ctor 0 w0) = ctor 0 w0" "dtor 1 (ctor 0 w0) = ctor 0 w0"
    using operations_total_and_guarded [where w = "ctor 0 w0" and p = 1] g2 by blast+
  have c: "dtor 0 (ctor 0 w0) = Interface_Unregister 0 (ctor 0 w0)"
    using operations_total_and_guarded [where w = "ctor 0 w0" and p = 0] g1 by blast
  have k1: "azrtti_cast_SerializeContext (Some (SerializeContext []) :: unit ReflectContext option) = Some []"
    by simp
  have e: "Reflect (Some (SerializeContext [])) =
       Some (SerializeContext (SerializeContext_Class ''o3dimportEditorSystemComponent''
         o3dimportEditorSystemComponentTypeId [''AZ::Component''] []) :: unit ReflectContext)"
    using operations_total_and_guarded [where ctx = "Some (SerializeContext [])"] k1 by blast
  have k2: "azrtti_cast_SerializeContext (Some (OtherContext ())) = None"
    by simp
  have f: "Reflect (Some (OtherContext ())) = Some (OtherContext ())"
    using operations_total_and_guarded [where ctx = "Some (OtherContext ())"] k2 by blast
  have l0: "(0::nat) \<notin> live (init ({}::nat set))"
    by (simp add: init_def)
  have h: "exec SetBusConnect SetBusDisconnect (Construct 0) (init {}) \<noteq> None"
    using operations_total_and_guarded
      [where s = "init {}" and p = 0 and c = SetBusConnect and d = SetBusDisconnect] l0
    by blast
  have l1: "(0::nat) \<in> live \<lparr>live = {0}, glob = ctor 0 w0\<rparr>"
    by simp
  have i: "exec SetBusConnect SetBusDisconnect (Destroy 0) \<lparr>live = {0}, glob = ctor 0 w0\<rparr> \<noteq> None"
    using operations_total_and_guarded
      [where s = "\<lparr>live = {0}, glob = ctor 0 w0\<rparr>" and p = 0 and c = SetBusConnect
         and d = SetBusDisconnect] l1
    by blast
  show ?thesis
    by (intro conjI; fact a b c e f h i)
qed

subsection \<open>The frame of the lifecycle hooks\<close>

text \<open>
  Claim C4: \<^verbatim>\<open>Activate\<close> and \<^verbatim>\<open>Deactivate\<close> act on the request bus and on nothing else.
  Every other part of the state is returned as it was: the singleton pointer and whatever
  further state the process has (the extension of the record). The new bus context is the
  host's connect or disconnect applied to the instance and the old context, so two states
  with the same bus context give the same one: nothing else is read.
\<close>

theorem Activate_Deactivate_frame:
  "s_instance (Activate c p w) = s_instance w
   \<and> world.more (Activate c p w) = world.more w
   \<and> bus (Activate c p w) = c p (bus w)
   \<and> s_instance (Deactivate d p w) = s_instance w
   \<and> world.more (Deactivate d p w) = world.more w
   \<and> bus (Deactivate d p w) = d p (bus w)
   \<and> (bus w = bus w' \<longrightarrow>
         bus (Activate c p w) = bus (Activate c p w')
         \<and> bus (Deactivate d p w) = bus (Deactivate d p w'))"
  by (simp add: Activate_def Deactivate_def)

theorem Activate_Deactivate_frame_witness:
  "bus w0 = bus (ctor 7 w0)
   \<and> s_instance w0 \<noteq> s_instance (ctor 7 w0)
   \<and> bus (Activate SetBusConnect 3 w0) = bus (Activate SetBusConnect 3 (ctor 7 w0))
   \<and> bus (Deactivate SetBusDisconnect 3 w0) = bus (Deactivate SetBusDisconnect 3 (ctor 7 w0))
   \<and> s_instance (Activate SetBusConnect 3 (ctor 7 w0)) = s_instance (ctor 7 w0)
   \<and> bus (Activate SetBusConnect 3 w0) = SetBusConnect 3 (bus w0)"
proof -
  have h: "bus w0 = bus (ctor 7 w0)"
    by (simp add: ctor_def Interface_Register_def)
  have n: "s_instance w0 \<noteq> s_instance (ctor 7 w0)"
    by (simp add: ctor_def Interface_Register_def Interface_Get_def w0_def)
  have a: "bus (Activate SetBusConnect 3 w0) = bus (Activate SetBusConnect 3 (ctor 7 w0))"
    "bus (Deactivate SetBusDisconnect 3 w0) = bus (Deactivate SetBusDisconnect 3 (ctor 7 w0))"
    "bus (Activate SetBusConnect 3 w0) = SetBusConnect 3 (bus w0)"
    using Activate_Deactivate_frame
      [where w = w0 and w' = "ctor 7 w0" and p = 3 and c = SetBusConnect and d = SetBusDisconnect] h
    by blast+
  have b: "s_instance (Activate SetBusConnect 3 (ctor 7 w0)) = s_instance (ctor 7 w0)"
    using Activate_Deactivate_frame [where w = "ctor 7 w0" and p = 3 and c = SetBusConnect]
    by blast
  show ?thesis
    by (intro conjI; fact h n a b)
qed

subsection \<open>Reflection and service declarations\<close>

lemma registered_fields_Reflect: "registered_fields (Reflect ctx) = registered_fields ctx"
  by (cases ctx rule: azrtti_cast_SerializeContext.cases)
    (simp_all add: Reflect_def SerializeContext_Class_def)

text \<open>
  Claim C6: on a serialize context \<^verbatim>\<open>Reflect\<close> declares the class of the component,
  with no field; on any other context, and on the null pointer, it has no effect; in no
  case does it register a field: the fields of the context after the call are those before.
\<close>

theorem Reflect_declares_class_without_fields:
  "(\<forall>cs. ctx = Some (SerializeContext cs) \<longrightarrow>
      Reflect ctx = Some (SerializeContext (cs @
        [\<lparr>cd_name = ''o3dimportEditorSystemComponent'',
          cd_typeId = o3dimportEditorSystemComponentTypeId,
          cd_bases = [''AZ::Component''], cd_fields = []\<rparr>])))
   \<and> ((\<forall>cs. ctx \<noteq> Some (SerializeContext cs)) \<longrightarrow> Reflect ctx = ctx)
   \<and> registered_fields (Reflect ctx) = registered_fields ctx"
proof (cases ctx rule: azrtti_cast_SerializeContext.cases)
  case (1 classes)
  then show ?thesis
    by (simp add: Reflect_def SerializeContext_Class_def)
next
  case (2 x)
  then show ?thesis
    by (simp add: Reflect_def)
next
  case 3
  then show ?thesis
    by (simp add: Reflect_def)
qed

theorem Reflect_declares_class_without_fields_witness:
  "Reflect (Some (SerializeContext [])) =
     Some (SerializeContext
       [\<lparr>cd_name = ''o3dimportEditorSystemComponent'',
         cd_typeId = o3dimportEditorSystemComponentTypeId,
         cd_bases = [''AZ::Component''], cd_fields = []\<rparr>] :: unit ReflectContext)
   \<and> Reflect (Some (OtherContext ())) = Some (OtherContext ())
   \<and> Reflect (None :: unit ReflectContext option) = None"
proof -
  have a: "Reflect (Some (SerializeContext [])) =
     Some (SerializeContext
       [\<lparr>cd_name = ''o3dimportEditorSystemComponent'',
         cd_typeId = o3dimportEditorSystemComponentTypeId,
         cd_bases = [''AZ::Component''], cd_fields = []\<rparr>] :: unit ReflectContext)"
    using Reflect_declares_class_without_fields
      [where ctx = "Some (SerializeContext []) :: unit ReflectContext option", THEN conjunct1,
        rule_format, of "[]"]
    by simp
  have n1: "\<forall>cs. Some (OtherContext ()) \<noteq> Some (SerializeContext cs)"
    by simp
  have b: "Reflect (Some (OtherContext ())) = Some (OtherContext ())"
    using Reflect_declares_class_without_fields
      [where ctx = "Some (OtherContext ())", THEN conjunct2, THEN conjunct1, rule_format] n1
    by simp
  have n2: "\<forall>cs. (None :: unit ReflectContext option) \<noteq> Some (SerializeContext cs)"
    by simp
  have c: "Reflect (None :: unit ReflectContext option) = None"
    using Reflect_declares_class_without_fields
      [where ctx = "None :: unit ReflectContext option", THEN conjunct2, THEN conjunct1,
        rule_format] n2
    by simp
  show ?thesis
    by (intro conjI; fact a b c)
qed

text \<open>
  Claim C8: \<^verbatim>\<open>GetProvidedServices\<close> and \<^verbatim>\<open>GetIncompatibleServices\<close> each append one
  tag, the CRC of \<^verbatim>\<open>o3dimportEditorService\<close>, so the tag provided is among the
  incompatible ones; \<^verbatim>\<open>GetRequiredServices\<close> and \<^verbatim>\<open>GetDependentServices\<close> return
  their arrays unchanged.
\<close>

theorem services_declared:
  "GetProvidedServices crc provided = provided @ [crc ''o3dimportEditorService'']
   \<and> GetIncompatibleServices crc incompatible = incompatible @ [crc ''o3dimportEditorService'']
   \<and> length (GetProvidedServices crc provided) = Suc (length provided)
   \<and> length (GetIncompatibleServices crc incompatible) = Suc (length incompatible)
   \<and> last (GetProvidedServices crc provided) = last (GetIncompatibleServices crc incompatible)
   \<and> last (GetProvidedServices crc provided) \<in> set (GetIncompatibleServices crc incompatible)
   \<and> GetRequiredServices required = required
   \<and> GetDependentServices dependent = dependent"
  by (simp add: GetProvidedServices_def GetIncompatibleServices_def GetRequiredServices_def
      GetDependentServices_def)

subsection \<open>The module classes\<close>

text \<open>
  Claim C5: the constructor of the editor module inserts exactly one descriptor, that of
  \<^verbatim>\<open>o3dimportEditorSystemComponent\<close>, at the end of \<^verbatim>\<open>m_descriptors\<close>, and
  \<^verbatim>\<open>GetRequiredSystemComponents\<close> of the editor module returns, for every module state,
  the one-element list of that component's type id.
\<close>

theorem editor_module_lists_one_component:
  "m_descriptors (snd (o3dimportEditorModule_ctor rs m)) = m_descriptors m @ [CreateDescriptor]
   \<and> length (m_descriptors (snd (o3dimportEditorModule_ctor rs m))) = Suc (length (m_descriptors m))
   \<and> m_descriptors (snd (o3dimportEditorModule_ctor rs \<lparr>m_descriptors = []\<rparr>)) = [CreateDescriptor]
   \<and> desc_name CreateDescriptor = ''o3dimportEditorSystemComponent''
   \<and> desc_typeId CreateDescriptor = o3dimportEditorSystemComponentTypeId
   \<and> o3dimportEditorModule_GetRequiredSystemComponents m' = [o3dimportEditorSystemComponentTypeId]
   \<and> GetRequiredSystemComponents EditorModuleClass m' = [o3dimportEditorSystemComponentTypeId]"
  by (simp add: o3dimportEditorModule_ctor_def o3dimportModuleInterface_ctor_def
      CreateDescriptor_def o3dimportEditorModule_GetRequiredSystemComponents_def
      azrtti_typeid_o3dimportEditorSystemComponent_def)

text \<open>
  Claim C10: \<^verbatim>\<open>GetRequiredSystemComponents\<close> of the base module class returns the empty
  list for every module; of the two classes only the editor module, which overrides it,
  returns a list that is not empty.
\<close>

theorem base_module_requires_no_component:
  "o3dimportModuleInterface_GetRequiredSystemComponents m = []
   \<and> GetRequiredSystemComponents ModuleInterfaceClass m = []
   \<and> GetRequiredSystemComponents EditorModuleClass m = [o3dimportEditorSystemComponentTypeId]
   \<and> ((GetRequiredSystemComponents cls m \<noteq> []) = (cls = EditorModuleClass))"
  by (cases cls)
    (simp_all add: o3dimportModuleInterface_GetRequiredSystemComponents_def
      o3dimportEditorModule_GetRequiredSystemComponents_def
      azrtti_typeid_o3dimportEditorSystemComponent_def)

end
